theory Spec2Isabelle
  imports Complex_Main "HOL-Library.Multiset" "HOL-Library.Monad_Syntax"
begin

section \<open>JavaScript values\<close>

text \<open>
  The server is \<^verbatim>\<open>src/server.js\<close>, an Express application that keeps every
  collection in a JSON file. Request bodies, file contents and reply bodies are JSON
  values; \<open>Undefined\<close> is what reading an absent property gives and never occurs inside
  parsed JSON. A string is the list of the bytes of its UTF-8 encoding. A number is a
  double, kept as the rational it denotes: \<open>JNum q\<close> is only built from a \<open>q\<close> that a
  double denotes, and the rounding of a decimal literal to a double is a function of the
  runtime (\<open>to_double\<close> below).
\<close>

datatype jsval =
    Undefined
  | Null
  | JBool bool
  | JNum rat
  | JStr string
  | JArr "jsval list"
  | JObj "(string \<times> jsval) list"

text \<open>The result of \<^verbatim>\<open>parseFloat\<close> and \<^verbatim>\<open>parseInt\<close>: a number that need not be finite.\<close>

datatype jsnum = NaN | PosInf | NegInf | Fin rat

text \<open>An exception that a handler does not catch is the reply \<open>Uncaught\<close>: the handler
  sends none of its own replies, and no file is written after the point where the
  exception was raised. Where a route handler raises it, Express answers with status 500
  and its error page; where the promise of one of the two \<^verbatim>\<open>async\<close> handlers
  (\<^verbatim>\<open>register\<close>, \<^verbatim>\<open>login\<close>) is rejected, what the client gets is left to the
  version of Express.\<close>

datatype response = Resp nat jsval | Uncaught

text \<open>\<^verbatim>\<open>!v\<close> is \<open>\<not> truthy v\<close>.\<close>

fun truthy :: "jsval \<Rightarrow> bool" where
  "truthy Undefined = False"
| "truthy Null = False"
| "truthy (JBool b) = b"
| "truthy (JNum q) = (q \<noteq> 0)"
| "truthy (JStr s) = (s \<noteq> [])"
| "truthy (JArr xs) = True"
| "truthy (JObj kvs) = True"

text \<open>\<^verbatim>\<open>n || d\<close> for a number \<open>n\<close>: \<open>NaN\<close> and zero are falsy.\<close>

fun num_truthy :: "jsnum \<Rightarrow> bool" where
  "num_truthy NaN = False"
| "num_truthy (Fin q) = (q \<noteq> 0)"
| "num_truthy PosInf = True"
| "num_truthy NegInf = True"

text \<open>\<^verbatim>\<open>JSON.stringify\<close> writes \<open>NaN\<close> and the infinities as \<^verbatim>\<open>null\<close>. A number
  computed by a handler is only ever observed through \<^verbatim>\<open>res.json\<close> or through a file,
  so it is kept in its serialised form.\<close>

fun json_num :: "jsnum \<Rightarrow> jsval" where
  "json_num (Fin q) = JNum q"
| "json_num NaN = Null"
| "json_num PosInf = Null"
| "json_num NegInf = Null"

text \<open>\<^verbatim>\<open>v.k\<close> for a property name \<open>k\<close> that no prototype defines (\<^verbatim>\<open>date\<close>,
  \<^verbatim>\<open>id\<close>, \<^verbatim>\<open>weight\<close>, ...): the own property of an object, \<^verbatim>\<open>undefined\<close>
  otherwise. On \<^verbatim>\<open>null\<close> and \<^verbatim>\<open>undefined\<close> the access raises a TypeError, which
  \<open>nullish\<close> tests before \<open>field\<close> is used on an array element.\<close>

fun field :: "jsval \<Rightarrow> string \<Rightarrow> jsval" where
  "field (JObj kvs) k = (case map_of kvs k of None \<Rightarrow> Undefined | Some v \<Rightarrow> v)"
| "field v k = Undefined"

fun nullish :: "jsval \<Rightarrow> bool" where
  "nullish Undefined = True"
| "nullish Null = True"
| "nullish v = False"

text \<open>\<^verbatim>\<open>a === b\<close>. Two arrays or objects are equal only when they are the same
  reference, which a value parsed from a file and a value taken from a request never are.\<close>

fun strict_eq :: "jsval \<Rightarrow> jsval \<Rightarrow> bool" where
  "strict_eq Undefined Undefined = True"
| "strict_eq Null Null = True"
| "strict_eq (JBool a) (JBool b) = (a = b)"
| "strict_eq (JNum a) (JNum b) = (a = b)"
| "strict_eq (JStr a) (JStr b) = (a = b)"
| "strict_eq a b = False"

text \<open>\<^verbatim>\<open>v !== n\<close> for a number \<open>n\<close> that may be \<open>NaN\<close>.\<close>

fun strict_neq_num :: "jsval \<Rightarrow> jsnum \<Rightarrow> bool" where
  "strict_neq_num (JNum a) (Fin b) = (a \<noteq> b)"
| "strict_neq_num v n = True"

text \<open>
  The conversion of a value to a primitive, which \<^verbatim>\<open>parseFloat(v)\<close> and
  \<^verbatim>\<open>new Date(v)\<close> start with, raises a TypeError on an object parsed from JSON that has
  an own property \<^verbatim>\<open>toString\<close>: the property is not a function and hides the
  inherited one, and \<^verbatim>\<open>valueOf\<close> gives the object back. An array is converted by
  joining the conversions of all its elements, so it raises when one of them does.
\<close>

fun raises :: "jsval \<Rightarrow> bool" where
  "raises (JObj kvs) = (map_of kvs ''toString'' \<noteq> None)"
| "raises (JArr xs) = list_ex raises xs"
| "raises v = False"

subsection \<open>parseFloat and parseInt\<close>

definition is_digit :: "char \<Rightarrow> bool" where
  "is_digit c = (48 \<le> (of_char c :: nat) \<and> (of_char c :: nat) \<le> 57)"

definition digit_val :: "char \<Rightarrow> nat" where
  "digit_val c = of_char c - 48"

definition digits_val :: "string \<Rightarrow> nat" where
  "digits_val s = foldl (\<lambda>a c. 10 * a + digit_val c) 0 s"

text \<open>
  The white space that both functions skip at the front of a string, in UTF-8: the six
  ASCII characters (tab, line feed, vertical tab, form feed, carriage return, space),
  U+00A0, and the three-byte characters U+1680, U+2000 to U+200A, U+2028, U+2029, U+202F,
  U+205F, U+3000 and U+FEFF.
\<close>

definition ws3 :: "nat \<Rightarrow> nat \<Rightarrow> nat \<Rightarrow> bool" where
  "ws3 a b c =
     ((a = 225 \<and> b = 154 \<and> c = 128)
      \<or> (a = 226 \<and> b = 128 \<and> ((128 \<le> c \<and> c \<le> 138) \<or> c = 168 \<or> c = 169 \<or> c = 175))
      \<or> (a = 226 \<and> b = 129 \<and> c = 159)
      \<or> (a = 227 \<and> b = 128 \<and> c = 128)
      \<or> (a = 239 \<and> b = 187 \<and> c = 191))"

fun skip_ws :: "string \<Rightarrow> string" where
  "skip_ws (a # b # c # r) =
     (if (of_char a :: nat) \<in> {9, 10, 11, 12, 13, 32} then skip_ws (b # c # r)
      else if (of_char a :: nat) = 194 \<and> (of_char b :: nat) = 160 then skip_ws (c # r)
      else if ws3 (of_char a) (of_char b) (of_char c) then skip_ws r
      else a # b # c # r)"
| "skip_ws [a, b] =
     (if (of_char a :: nat) \<in> {9, 10, 11, 12, 13, 32} then skip_ws [b]
      else if (of_char a :: nat) = 194 \<and> (of_char b :: nat) = 160 then []
      else [a, b])"
| "skip_ws [a] = (if (of_char a :: nat) \<in> {9, 10, 11, 12, 13, 32} then [] else [a])"
| "skip_ws [] = []"

text \<open>The sign in front of a literal, and the rest of the string.\<close>

fun split_sign :: "string \<Rightarrow> bool \<times> string" where
  "split_sign [] = (False, [])"
| "split_sign (c # r) =
     (if c = CHR ''-'' then (True, r) else if c = CHR ''+'' then (False, r) else (False, c # r))"

text \<open>The exponent part \<^verbatim>\<open>e\<close>, sign, digits at the front of a string; \<open>0\<close> when there
  is none (an \<^verbatim>\<open>e\<close> that no digit follows is not part of the literal).\<close>

definition exponent_part :: "string \<Rightarrow> int" where
  "exponent_part s =
     (case s of
        [] \<Rightarrow> 0
      | c # r \<Rightarrow>
          if c = CHR ''e'' \<or> c = CHR ''E'' then
            (let (neg, r') = split_sign r; ds = takeWhile is_digit r'
             in if ds = [] then 0
                else if neg then - int (digits_val ds) else int (digits_val ds))
          else 0)"

definition scale10 :: "rat \<Rightarrow> int \<Rightarrow> rat" where
  "scale10 q e = (if 0 \<le> e then q * 10 ^ nat e else q / 10 ^ nat (- e))"

text \<open>\<^verbatim>\<open>parseFloat\<close> on a string: the longest prefix, after white space, that is a
  decimal literal, rounded to a double by \<open>rd\<close> (which gives an infinity for a literal
  beyond the doubles and zero for one too small).\<close>

definition parseFloat_str :: "(rat \<Rightarrow> jsnum) \<Rightarrow> string \<Rightarrow> jsnum" where
  "parseFloat_str rd s =
     (let (neg, t) = split_sign (skip_ws s)
      in if take 8 t = ''Infinity'' then (if neg then NegInf else PosInf)
         else
           let ip = takeWhile is_digit t;
               r1 = dropWhile is_digit t;
               fp = (case r1 of [] \<Rightarrow> [] | c # r \<Rightarrow> if c = CHR ''.'' then takeWhile is_digit r else []);
               r2 = (case r1 of [] \<Rightarrow> [] | c # r \<Rightarrow> if c = CHR ''.'' then dropWhile is_digit r else r1)
           in if ip = [] \<and> fp = [] then NaN
              else
                let m = scale10 (of_nat (digits_val (ip @ fp))) (exponent_part r2 - int (length fp))
                in rd (if neg then - m else m))"

text \<open>What \<^verbatim>\<open>parseFloat(v)\<close> reads in the string that \<open>v\<close> converts to, when the
  conversion does not raise. A number prints as a literal that reads back as itself;
  \<^verbatim>\<open>undefined\<close>, \<^verbatim>\<open>null\<close>, booleans and objects print as words that are no literal;
  an array prints its elements separated by commas (with \<^verbatim>\<open>null\<close> as the empty
  string), so that only its first element is read.\<close>

fun parse_number :: "(rat \<Rightarrow> jsnum) \<Rightarrow> jsval \<Rightarrow> jsnum" where
  "parse_number rd (JNum q) = Fin q"
| "parse_number rd (JStr s) = parseFloat_str rd s"
| "parse_number rd (JArr (x # xs)) = parse_number rd x"
| "parse_number rd v = NaN"

text \<open>\<^verbatim>\<open>parseFloat(v)\<close>: \<open>None\<close> when the conversion of \<open>v\<close> to a string raises.\<close>

definition parseFloat :: "(rat \<Rightarrow> jsnum) \<Rightarrow> jsval \<Rightarrow> jsnum option" where
  "parseFloat rd v = (if raises v then None else Some (parse_number rd v))"

definition is_hex :: "char \<Rightarrow> bool" where
  "is_hex c = (is_digit c \<or> (65 \<le> (of_char c :: nat) \<and> (of_char c :: nat) \<le> 70)
                \<or> (97 \<le> (of_char c :: nat) \<and> (of_char c :: nat) \<le> 102))"

definition hex_val :: "char \<Rightarrow> nat" where
  "hex_val c = (if is_digit c then of_char c - 48
                else if (of_char c :: nat) \<le> 70 then of_char c - 55 else of_char c - 87)"

text \<open>\<^verbatim>\<open>parseInt(s)\<close> without a radix: decimal digits, or hexadecimal ones after
  \<^verbatim>\<open>0x\<close>; the integer read is rounded to a double by \<open>rd\<close>.\<close>

definition parseInt :: "(rat \<Rightarrow> jsnum) \<Rightarrow> string \<Rightarrow> jsnum" where
  "parseInt rd s =
     (let (neg, t) = split_sign (skip_ws s);
          hex = (take 2 t = ''0x'' \<or> take 2 t = ''0X'');
          ds = (if hex then takeWhile is_hex (drop 2 t) else takeWhile is_digit t);
          n = (if hex then foldl (\<lambda>a c. 16 * a + hex_val c) 0 ds else digits_val ds)
      in if ds = [] then NaN else rd (if neg then - of_nat n else of_nat n))"

text \<open>\<^verbatim>\<open>Date.now().toString()\<close>: the decimal digits of the clock.\<close>

definition digit_char :: "nat \<Rightarrow> char" where
  "digit_char d = ''0123456789'' ! d"

fun decimal :: "nat \<Rightarrow> string" where
  "decimal n =
     (if n < 10 then [digit_char n]
      else decimal (n div 10) @ [digit_char (n mod 10)])"

declare decimal.simps [simp del]

section \<open>The runtime and the storage\<close>

text \<open>
  What a handler takes from the runtime: \<^verbatim>\<open>Date.now()\<close>; the time value of
  \<^verbatim>\<open>new Date(v)\<close> for a \<open>v\<close> whose conversion does not raise (\<open>None\<close> for an invalid
  date, whose time value is \<open>NaN\<close>); the double that a decimal literal denotes; and the
  two functions of \<^verbatim>\<open>bcryptjs\<close> (\<open>None\<close> when they reject their arguments).
\<close>

record env =
  now :: nat
  date_value :: "jsval \<Rightarrow> int option"
  to_double :: "rat \<Rightarrow> jsnum"
  bcrypt_hash :: "jsval \<Rightarrow> string option"
  bcrypt_compare :: "jsval \<Rightarrow> string \<Rightarrow> bool option"

text \<open>A request as a handler sees it: \<^verbatim>\<open>req.session.userId\<close> when the session has
  one, the parsed body, and the \<^verbatim>\<open>:id\<close> segment of the path.\<close>

record request =
  session_userId :: "string option"
  body :: jsval
  params_id :: string

text \<open>An element of \<^verbatim>\<open>users.json\<close>. Only \<^verbatim>\<open>register\<close> writes that file, so its
  content is kept as a list of records; \<open>createdAt\<close> holds the clock value whose ISO
  rendering the source stores.\<close>

record user =
  user_id :: string
  username :: jsval
  email :: jsval
  password :: string
  createdAt :: nat

text \<open>What a file holds: text that \<^verbatim>\<open>JSON.parse\<close> reads as a value, or text that it
  rejects.\<close>

datatype 'a stored = Parsed 'a | Unparsable

text \<open>
  The data directory: \<^verbatim>\<open>users.json\<close>, and the files of \<^verbatim>\<open>data/entries\<close> by path
  (\<open>None\<close> where there is no file). \<open>rfail p\<close> says that \<^verbatim>\<open>fs.readFileSync\<close> raises on
  the file at \<open>p\<close>, \<open>wfail p\<close> that \<^verbatim>\<open>fs.writeFileSync\<close> does; both are properties of the
  directory that no route changes, and a write that raises leaves the file as it was. A
  write that succeeds replaces the content, also content that could not be parsed.
\<close>

record world =
  users :: "user list stored"
  users_rfail :: bool
  users_wfail :: bool
  files :: "string \<Rightarrow> jsval stored option"
  rfail :: "string \<Rightarrow> bool"
  wfail :: "string \<Rightarrow> bool"

definition ENTRIES_DIR :: string where
  "ENTRIES_DIR = ''data/entries''"

text \<open>\<^verbatim>\<open>path.join\<close> of a directory and a file name that has no separator in it;
  paths are written from the directory of the server.\<close>

definition path_join :: "string \<Rightarrow> string \<Rightarrow> string" where
  "path_join d f = d @ ''/'' @ f"

definition readUsers :: "world \<Rightarrow> user list" where
  "readUsers w =
     (if users_rfail w then []
      else case users w of Parsed us \<Rightarrow> us | Unparsable \<Rightarrow> [])"

definition writeUsers :: "world \<Rightarrow> user list \<Rightarrow> bool \<times> world" where
  "writeUsers w us = (if users_wfail w then (False, w) else (True, w\<lparr>users := Parsed us\<rparr>))"

text \<open>The pattern shared by every read helper: the parsed file when it exists and can
  be read and parsed, the default otherwise.\<close>

definition read_json :: "world \<Rightarrow> string \<Rightarrow> jsval \<Rightarrow> jsval" where
  "read_json w p dflt =
     (case files w p of
        None \<Rightarrow> dflt
      | Some Unparsable \<Rightarrow> dflt
      | Some (Parsed v) \<Rightarrow> if rfail w p then dflt else v)"

text \<open>The pattern shared by every write helper: \<open>True\<close> and the new file, or \<open>False\<close>.\<close>

definition write_json :: "world \<Rightarrow> string \<Rightarrow> jsval \<Rightarrow> bool \<times> world" where
  "write_json w p v =
     (if wfail w p then (False, w) else (True, w\<lparr>files := (files w)(p \<mapsto> Parsed v)\<rparr>))"

definition getUserEntriesFile :: "string \<Rightarrow> string" where
  "getUserEntriesFile userId = path_join ENTRIES_DIR (userId @ ''.json'')"

definition readUserEntries :: "world \<Rightarrow> string \<Rightarrow> jsval" where
  "readUserEntries w userId = read_json w (getUserEntriesFile userId) (JArr [])"

definition writeUserEntries :: "world \<Rightarrow> string \<Rightarrow> jsval \<Rightarrow> bool \<times> world" where
  "writeUserEntries w userId entries = write_json w (getUserEntriesFile userId) entries"

definition getUserNutritionFile :: "string \<Rightarrow> string" where
  "getUserNutritionFile userId = path_join ENTRIES_DIR (userId @ ''_nutrition.json'')"

definition readUserNutrition :: "world \<Rightarrow> string \<Rightarrow> jsval" where
  "readUserNutrition w userId = read_json w (getUserNutritionFile userId) (JArr [])"

definition writeUserNutrition :: "world \<Rightarrow> string \<Rightarrow> jsval \<Rightarrow> bool \<times> world" where
  "writeUserNutrition w userId entries = write_json w (getUserNutritionFile userId) entries"

definition default_settings :: jsval where
  "default_settings =
     JObj [(''calorieGoal'', JNum 2000), (''proteinGoal'', JNum 150),
           (''carbsGoal'', JNum 200), (''fatsGoal'', JNum 65)]"

definition getUserNutritionSettingsFile :: "string \<Rightarrow> string" where
  "getUserNutritionSettingsFile userId =
     path_join ENTRIES_DIR (userId @ ''_nutrition_settings.json'')"

definition readUserNutritionSettings :: "world \<Rightarrow> string \<Rightarrow> jsval" where
  "readUserNutritionSettings w userId =
     read_json w (getUserNutritionSettingsFile userId) default_settings"

definition writeUserNutritionSettings :: "world \<Rightarrow> string \<Rightarrow> jsval \<Rightarrow> bool \<times> world" where
  "writeUserNutritionSettings w userId settings =
     write_json w (getUserNutritionSettingsFile userId) settings"

text \<open>The two paths that the legacy diet routes build in place.\<close>

definition dietFile :: "string \<Rightarrow> string" where
  "dietFile userId = path_join ENTRIES_DIR (userId @ ''_diet.json'')"

definition dietSettingsFile :: "string \<Rightarrow> string" where
  "dietSettingsFile userId = path_join ENTRIES_DIR (userId @ ''_diet_settings.json'')"

section \<open>Sorting by date\<close>

text \<open>
  The comparators are \<^verbatim>\<open>new Date(a.date) - new Date(b.date)\<close> and its mirror image.
  \<^verbatim>\<open>sort\<close> reads a comparator result of \<open>NaN\<close>, which an invalid date gives, as \<open>0\<close>.
\<close>

definition date_asc :: "(jsval \<Rightarrow> int option) \<Rightarrow> jsval \<Rightarrow> jsval \<Rightarrow> int" where
  "date_asc tv a b =
     (case (tv (field a ''date''), tv (field b ''date'')) of
        (Some x, Some y) \<Rightarrow> x - y
      | _ \<Rightarrow> 0)"

definition date_desc :: "(jsval \<Rightarrow> int option) \<Rightarrow> jsval \<Rightarrow> jsval \<Rightarrow> int" where
  "date_desc tv a b = date_asc tv b a"

text \<open>
  \<^verbatim>\<open>Array.prototype.sort\<close> is stable, and for a consistent comparator its result is
  determined; it is modelled by insertion from the right end, which is stable. When the
  comparator is not consistent (an invalid date compares equal to every date) the
  language leaves the order to the engine; the model then gives the order of this
  insertion sort. No theorem of a claim relies on it; the one example that uses it,
  \<open>invalid_date_stored_example\<close>, sorts an array in which no element compares less than
  the one before it, which the sort of Node's engine leaves as it is. Elements that are
  \<^verbatim>\<open>undefined\<close> go to the end without being compared.
\<close>

fun insert_by :: "('a \<Rightarrow> 'a \<Rightarrow> int) \<Rightarrow> 'a \<Rightarrow> 'a list \<Rightarrow> 'a list" where
  "insert_by cmp x [] = [x]"
| "insert_by cmp x (y # ys) = (if cmp x y \<le> 0 then x # y # ys else y # insert_by cmp x ys)"

definition array_sort :: "(jsval \<Rightarrow> jsval \<Rightarrow> int) \<Rightarrow> jsval list \<Rightarrow> jsval list" where
  "array_sort cmp xs =
     foldr (insert_by cmp) (filter (\<lambda>e. e \<noteq> Undefined) xs) [] @ filter (\<lambda>e. e = Undefined) xs"

text \<open>Either comparator raises a TypeError on an element that is \<^verbatim>\<open>null\<close>, which has
  no \<^verbatim>\<open>date\<close>, and on an element whose \<^verbatim>\<open>date\<close> cannot be converted to a primitive;
  with two or more elements to compare, every one of them is passed to the comparator.\<close>

definition sort_by_date :: "(jsval \<Rightarrow> jsval \<Rightarrow> int) \<Rightarrow> jsval list \<Rightarrow> jsval list option" where
  "sort_by_date cmp xs =
     (let ys = filter (\<lambda>e. e \<noteq> Undefined) xs
      in if 2 \<le> length ys \<and> list_ex (\<lambda>e. e = Null \<or> raises (field e ''date'')) ys then None
         else Some (array_sort cmp xs))"

section \<open>The routes\<close>

definition err :: "string \<Rightarrow> jsval" where
  "err msg = JObj [(''error'', JStr msg)]"

text \<open>The middleware in front of every protected route.\<close>

definition isAuthenticated ::
  "(string \<Rightarrow> request \<Rightarrow> world \<Rightarrow> response \<times> world) \<Rightarrow> request \<Rightarrow> world \<Rightarrow> response \<times> world" where
  "isAuthenticated next req w =
     (case session_userId req of
        Some userId \<Rightarrow>
          if userId \<noteq> [] then next userId req w
          else (Resp 401 (err ''Not authenticated''), w)
      | None \<Rightarrow> (Resp 401 (err ''Not authenticated''), w))"

text \<open>\<^verbatim>\<open>n || d\<close> for a parsed number \<open>n\<close>, as serialised.\<close>

definition or_default :: "jsnum \<Rightarrow> rat \<Rightarrow> jsval" where
  "or_default n d = (if num_truthy n then json_num n else JNum d)"

text \<open>\<^verbatim>\<open>parseFloat(v) || d\<close>, as serialised; \<open>None\<close> when \<^verbatim>\<open>parseFloat\<close> raises.\<close>

definition num_field :: "(rat \<Rightarrow> jsnum) \<Rightarrow> jsval \<Rightarrow> rat \<Rightarrow> jsval option" where
  "num_field rd v d = map_option (\<lambda>n. or_default n d) (parseFloat rd v)"

subsection \<open>Weight tracker\<close>

definition get_entries :: "string \<Rightarrow> request \<Rightarrow> world \<Rightarrow> response \<times> world" where
  "get_entries userId req w = (Resp 200 (readUserEntries w userId), w)"

definition post_entries :: "env \<Rightarrow> string \<Rightarrow> request \<Rightarrow> world \<Rightarrow> response \<times> world" where
  "post_entries e userId req w =
     (let date = field (body req) ''date''; weight = field (body req) ''weight''
      in if \<not> truthy date \<or> \<not> truthy weight
         then (Resp 400 (err ''Date and weight are required''), w)
         else
           case readUserEntries w userId of
             JArr entries \<Rightarrow>
               (case parseFloat (to_double e) weight of
                  None \<Rightarrow> (Uncaught, w)
                | Some parsed \<Rightarrow>
                    (let newEntry = JObj [(''id'', JNum (of_nat (now e))), (''date'', date),
                                          (''weight'', json_num parsed)]
                     in case sort_by_date (date_asc (date_value e)) (entries @ [newEntry]) of
                          None \<Rightarrow> (Uncaught, w)
                        | Some sortedEntries \<Rightarrow>
                            (case writeUserEntries w userId (JArr sortedEntries) of
                               (True, w') \<Rightarrow> (Resp 201 newEntry, w')
                             | (False, w') \<Rightarrow> (Resp 500 (err ''Failed to save entry''), w'))))
           | _ \<Rightarrow> (Uncaught, w))"

text \<open>The \<^verbatim>\<open>filter\<close> of the three delete routes: \<^verbatim>\<open>e.id !== id\<close> raises on an
  element that is \<^verbatim>\<open>null\<close>.\<close>

definition filter_id :: "jsnum \<Rightarrow> jsval list \<Rightarrow> jsval list option" where
  "filter_id n entries =
     (if list_ex nullish entries then None
      else Some (filter (\<lambda>e. strict_neq_num (field e ''id'') n) entries))"

definition delete_entries_id :: "env \<Rightarrow> string \<Rightarrow> request \<Rightarrow> world \<Rightarrow> response \<times> world" where
  "delete_entries_id e userId req w =
     (let n = parseInt (to_double e) (params_id req)
      in case readUserEntries w userId of
           JArr entries \<Rightarrow>
             (case filter_id n entries of
                None \<Rightarrow> (Uncaught, w)
              | Some kept \<Rightarrow>
                  if length kept = length entries then (Resp 404 (err ''Entry not found''), w)
                  else
                    (case writeUserEntries w userId (JArr kept) of
                       (True, w') \<Rightarrow>
                         (Resp 200 (JObj [(''message'', JStr ''Entry deleted successfully'')]), w')
                     | (False, w') \<Rightarrow> (Resp 500 (err ''Failed to delete entry''), w')))
         | _ \<Rightarrow> (Uncaught, w))"

subsection \<open>Nutrition tracker\<close>

definition get_nutrition_entries :: "string \<Rightarrow> request \<Rightarrow> world \<Rightarrow> response \<times> world" where
  "get_nutrition_entries userId req w = (Resp 200 (readUserNutrition w userId), w)"

text \<open>The bulk save: the body, when it is an array, replaces the file as it is.\<close>

definition post_nutrition_entries :: "string \<Rightarrow> request \<Rightarrow> world \<Rightarrow> response \<times> world" where
  "post_nutrition_entries userId req w =
     (case body req of
        JArr entries \<Rightarrow>
          (case writeUserNutrition w userId (JArr entries) of
             (True, w') \<Rightarrow>
               (Resp 200 (JObj [(''success'', JBool True),
                                (''message'', JStr ''Entries saved successfully''),
                                (''count'', JNum (of_nat (length entries)))]), w')
           | (False, w') \<Rightarrow> (Resp 500 (err ''Failed to save entries''), w'))
      | _ \<Rightarrow> (Resp 400 (err ''Invalid data format''), w))"

text \<open>The four numbers of a new nutrition or diet entry after the required ones, in the
  order in which the source parses them.\<close>

definition macros :: "(rat \<Rightarrow> jsnum) \<Rightarrow> jsval \<Rightarrow> (string \<times> jsval) list option" where
  "macros rd b =
     do {
       protein \<leftarrow> num_field rd (field b ''protein'') 0;
       carbs \<leftarrow> num_field rd (field b ''carbs'') 0;
       fats \<leftarrow> num_field rd (field b ''fats'') 0;
       Some [(''protein'', protein), (''carbs'', carbs), (''fats'', fats)]
     }"

definition post_nutrition_entry :: "env \<Rightarrow> string \<Rightarrow> request \<Rightarrow> world \<Rightarrow> response \<times> world" where
  "post_nutrition_entry e userId req w =
     (let date = field (body req) ''date''; type = field (body req) ''type'';
          name = field (body req) ''name''; calories = field (body req) ''calories''
      in if \<not> truthy date \<or> \<not> truthy type \<or> \<not> truthy name \<or> calories = Undefined
         then (Resp 400 (err ''Required fields missing''), w)
         else
           case readUserNutrition w userId of
             JArr entries \<Rightarrow>
               (case do {
                       cal \<leftarrow> num_field (to_double e) calories 0;
                       rest \<leftarrow> macros (to_double e) (body req);
                       Some (JObj ([(''id'', JNum (of_nat (now e))), (''date'', date),
                                    (''type'', type), (''name'', name),
                                    (''calories'', cal)] @ rest))
                     } of
                  None \<Rightarrow> (Uncaught, w)
                | Some newEntry \<Rightarrow>
                    (case sort_by_date (date_desc (date_value e)) (entries @ [newEntry]) of
                       None \<Rightarrow> (Uncaught, w)
                     | Some sortedEntries \<Rightarrow>
                         (case writeUserNutrition w userId (JArr sortedEntries) of
                            (True, w') \<Rightarrow>
                              (Resp 201 (JObj [(''success'', JBool True),
                                               (''message'', JStr ''Entry added successfully''),
                                               (''entry'', newEntry)]), w')
                          | (False, w') \<Rightarrow> (Resp 500 (err ''Failed to add entry''), w'))))
           | _ \<Rightarrow> (Uncaught, w))"

definition delete_nutrition_entry_id ::
  "env \<Rightarrow> string \<Rightarrow> request \<Rightarrow> world \<Rightarrow> response \<times> world" where
  "delete_nutrition_entry_id e userId req w =
     (let n = parseInt (to_double e) (params_id req)
      in case readUserNutrition w userId of
           JArr entries \<Rightarrow>
             (case filter_id n entries of
                None \<Rightarrow> (Uncaught, w)
              | Some kept \<Rightarrow>
                  if length kept = length entries then (Resp 404 (err ''Entry not found''), w)
                  else
                    (case writeUserNutrition w userId (JArr kept) of
                       (True, w') \<Rightarrow>
                         (Resp 200 (JObj [(''success'', JBool True),
                                          (''message'', JStr ''Entry deleted successfully'')]), w')
                     | (False, w') \<Rightarrow> (Resp 500 (err ''Failed to delete entry''), w')))
         | _ \<Rightarrow> (Uncaught, w))"

definition get_nutrition_settings :: "string \<Rightarrow> request \<Rightarrow> world \<Rightarrow> response \<times> world" where
  "get_nutrition_settings userId req w = (Resp 200 (readUserNutritionSettings w userId), w)"

text \<open>The settings object that both settings routes build from the body alone; \<open>None\<close>
  when one of the four \<^verbatim>\<open>parseFloat\<close> calls raises.\<close>

definition settings_of :: "(rat \<Rightarrow> jsnum) \<Rightarrow> jsval \<Rightarrow> jsval option" where
  "settings_of rd b =
     do {
       calorieGoal \<leftarrow> num_field rd (field b ''calorieGoal'') 2000;
       proteinGoal \<leftarrow> num_field rd (field b ''proteinGoal'') 150;
       carbsGoal \<leftarrow> num_field rd (field b ''carbsGoal'') 200;
       fatsGoal \<leftarrow> num_field rd (field b ''fatsGoal'') 65;
       Some (JObj [(''calorieGoal'', calorieGoal), (''proteinGoal'', proteinGoal),
                   (''carbsGoal'', carbsGoal), (''fatsGoal'', fatsGoal)])
     }"

definition post_nutrition_settings ::
  "env \<Rightarrow> string \<Rightarrow> request \<Rightarrow> world \<Rightarrow> response \<times> world" where
  "post_nutrition_settings e userId req w =
     (case settings_of (to_double e) (body req) of
        None \<Rightarrow> (Uncaught, w)
      | Some settings \<Rightarrow>
          (case writeUserNutritionSettings w userId settings of
             (True, w') \<Rightarrow>
               (Resp 200 (JObj [(''success'', JBool True),
                                (''message'', JStr ''Settings saved successfully''),
                                (''settings'', settings)]), w')
           | (False, w') \<Rightarrow> (Resp 500 (err ''Failed to save settings''), w')))"

subsection \<open>Legacy diet routes\<close>

definition get_diet :: "string \<Rightarrow> request \<Rightarrow> world \<Rightarrow> response \<times> world" where
  "get_diet userId req w = (Resp 200 (read_json w (dietFile userId) (JArr [])), w)"

definition post_diet :: "env \<Rightarrow> string \<Rightarrow> request \<Rightarrow> world \<Rightarrow> response \<times> world" where
  "post_diet e userId req w =
     (let date = field (body req) ''date''; meal = field (body req) ''meal'';
          foodName = field (body req) ''foodName''; calories = field (body req) ''calories''
      in if \<not> truthy date \<or> \<not> truthy meal \<or> \<not> truthy foodName \<or> \<not> truthy calories
         then (Resp 400 (err ''Required fields missing''), w)
         else
           case read_json w (dietFile userId) (JArr []) of
             JArr entries \<Rightarrow>
               (case do {
                       cal \<leftarrow> parseFloat (to_double e) calories;
                       rest \<leftarrow> macros (to_double e) (body req);
                       Some (JObj ([(''id'', JNum (of_nat (now e))), (''date'', date),
                                    (''meal'', meal), (''foodName'', foodName),
                                    (''calories'', json_num cal)] @ rest))
                     } of
                  None \<Rightarrow> (Uncaught, w)
                | Some newEntry \<Rightarrow>
                    (case sort_by_date (date_desc (date_value e)) (entries @ [newEntry]) of
                       None \<Rightarrow> (Uncaught, w)
                     | Some sortedEntries \<Rightarrow>
                         (case write_json w (dietFile userId) (JArr sortedEntries) of
                            (True, w') \<Rightarrow> (Resp 201 newEntry, w')
                          | (False, w') \<Rightarrow> (Resp 500 (err ''Failed to save entry''), w'))))
           | _ \<Rightarrow> (Uncaught, w))"

text \<open>Here the whole body is inside one \<^verbatim>\<open>try\<close>: a failed read and a TypeError are
  answered like a failed write.\<close>

definition delete_diet_id :: "env \<Rightarrow> string \<Rightarrow> request \<Rightarrow> world \<Rightarrow> response \<times> world" where
  "delete_diet_id e userId req w =
     (let n = parseInt (to_double e) (params_id req)
      in case files w (dietFile userId) of
           None \<Rightarrow> (Resp 404 (err ''No entries found''), w)
         | Some Unparsable \<Rightarrow> (Resp 500 (err ''Failed to delete entry''), w)
         | Some (Parsed v) \<Rightarrow>
             if rfail w (dietFile userId) then (Resp 500 (err ''Failed to delete entry''), w)
             else
               (case v of
                  JArr entries \<Rightarrow>
                    (case filter_id n entries of
                       None \<Rightarrow> (Resp 500 (err ''Failed to delete entry''), w)
                     | Some kept \<Rightarrow>
                         if length kept = length entries
                         then (Resp 404 (err ''Entry not found''), w)
                         else
                           (case write_json w (dietFile userId) (JArr kept) of
                              (True, w') \<Rightarrow>
                                (Resp 200 (JObj [(''message'', JStr ''Entry deleted successfully'')]), w')
                            | (False, w') \<Rightarrow> (Resp 500 (err ''Failed to delete entry''), w')))
                | _ \<Rightarrow> (Resp 500 (err ''Failed to delete entry''), w)))"

definition get_diet_settings :: "string \<Rightarrow> request \<Rightarrow> world \<Rightarrow> response \<times> world" where
  "get_diet_settings userId req w =
     (Resp 200 (read_json w (dietSettingsFile userId) default_settings), w)"

text \<open>The settings are built before the \<^verbatim>\<open>try\<close> around the write.\<close>

definition post_diet_settings :: "env \<Rightarrow> string \<Rightarrow> request \<Rightarrow> world \<Rightarrow> response \<times> world" where
  "post_diet_settings e userId req w =
     (case settings_of (to_double e) (body req) of
        None \<Rightarrow> (Uncaught, w)
      | Some settings \<Rightarrow>
          (case write_json w (dietSettingsFile userId) settings of
             (True, w') \<Rightarrow> (Resp 200 settings, w')
           | (False, w') \<Rightarrow> (Resp 500 (err ''Failed to save settings''), w')))"

subsection \<open>The protected routes together\<close>

datatype route =
    GetEntries | PostEntries | DeleteEntriesId
  | GetNutritionEntries | PostNutritionEntries | PostNutritionEntry | DeleteNutritionEntryId
  | GetNutritionSettings | PostNutritionSettings
  | GetDiet | PostDiet | DeleteDietId
  | GetDietSettings | PostDietSettings

fun handler :: "env \<Rightarrow> route \<Rightarrow> string \<Rightarrow> request \<Rightarrow> world \<Rightarrow> response \<times> world" where
  "handler e GetEntries = get_entries"
| "handler e PostEntries = post_entries e"
| "handler e DeleteEntriesId = delete_entries_id e"
| "handler e GetNutritionEntries = get_nutrition_entries"
| "handler e PostNutritionEntries = post_nutrition_entries"
| "handler e PostNutritionEntry = post_nutrition_entry e"
| "handler e DeleteNutritionEntryId = delete_nutrition_entry_id e"
| "handler e GetNutritionSettings = get_nutrition_settings"
| "handler e PostNutritionSettings = post_nutrition_settings e"
| "handler e GetDiet = get_diet"
| "handler e PostDiet = post_diet e"
| "handler e DeleteDietId = delete_diet_id e"
| "handler e GetDietSettings = get_diet_settings"
| "handler e PostDietSettings = post_diet_settings e"

text \<open>A request to a protected route: the middleware, then the handler.\<close>

definition serve :: "env \<Rightarrow> route \<Rightarrow> request \<Rightarrow> world \<Rightarrow> response \<times> world" where
  "serve e r req w = isAuthenticated (handler e r) req w"

text \<open>The five routes that list a collection or get a settings record.\<close>

fun is_read :: "route \<Rightarrow> bool" where
  "is_read GetEntries = True"
| "is_read GetNutritionEntries = True"
| "is_read GetNutritionSettings = True"
| "is_read GetDiet = True"
| "is_read GetDietSettings = True"
| "is_read r = False"

subsection \<open>Registration and login\<close>

text \<open>\<^verbatim>\<open>register\<close> does not look at what its two writes return.\<close>

definition register :: "env \<Rightarrow> request \<Rightarrow> world \<Rightarrow> response \<times> world" where
  "register e req w =
     (let uname = field (body req) ''username''; pw = field (body req) ''password'';
          mail = field (body req) ''email''
      in if \<not> truthy uname \<or> \<not> truthy pw
         then (Resp 400 (err ''Username and password required''), w)
         else
           let us = readUsers w
           in if list_ex (\<lambda>u. strict_eq (username u) uname) us
              then (Resp 400 (err ''Username already exists''), w)
              else
                case bcrypt_hash e pw of
                  None \<Rightarrow> (Uncaught, w)
                | Some hashedPassword \<Rightarrow>
                    (let newUser = \<lparr>user_id = decimal (now e), username = uname,
                                     email = (if truthy mail then mail else JStr []),
                                     password = hashedPassword, createdAt = now e\<rparr>;
                         w1 = snd (writeUsers w (us @ [newUser]));
                         w2 = snd (writeUserEntries w1 (user_id newUser) (JArr []))
                     in (Resp 201 (JObj [(''message'', JStr ''User registered successfully''),
                                         (''user'', JObj [(''id'', JStr (user_id newUser)),
                                                          (''username'', uname)])]), w2)))"

text \<open>\<^verbatim>\<open>login\<close> returns its reply and, when it succeeds, the \<^verbatim>\<open>userId\<close> and
  \<^verbatim>\<open>username\<close> that it stores in the session; it writes no file. The promise of
  \<^verbatim>\<open>bcrypt.compare\<close> is awaited outside any \<^verbatim>\<open>try\<close>: when it rejects, the handler
  ends with that exception and sends none of its replies.\<close>

definition login :: "env \<Rightarrow> request \<Rightarrow> world \<Rightarrow> response \<times> (string \<times> jsval) option" where
  "login e req w =
     (let uname = field (body req) ''username''; pw = field (body req) ''password''
      in if \<not> truthy uname \<or> \<not> truthy pw
         then (Resp 400 (err ''Username and password required''), None)
         else
           case find (\<lambda>u. strict_eq (username u) uname) (readUsers w) of
             None \<Rightarrow> (Resp 401 (err ''Invalid credentials''), None)
           | Some u \<Rightarrow>
               (case bcrypt_compare e pw (password u) of
                  None \<Rightarrow> (Uncaught, None)
                | Some isValid \<Rightarrow>
                    if \<not> isValid then (Resp 401 (err ''Invalid credentials''), None)
                    else (Resp 200 (JObj [(''message'', JStr ''Login successful''),
                                          (''user'', JObj [(''id'', JStr (user_id u)),
                                                           (''username'', username u)])]),
                          Some (user_id u, username u))))"

section \<open>Dates in the examples\<close>

text \<open>
  The theorems hold for whatever \<^verbatim>\<open>new Date\<close> computes. The examples use its
  value on a date-only ISO string \<^verbatim>\<open>YYYY-MM-DD\<close> of the years 1970 to 9999, in
  milliseconds since the epoch; every other value counts as an invalid date there.
\<close>

definition leap_year :: "nat \<Rightarrow> bool" where
  "leap_year y = (y mod 4 = 0 \<and> (y mod 100 \<noteq> 0 \<or> y mod 400 = 0))"

definition days_in_month :: "nat \<Rightarrow> nat \<Rightarrow> nat" where
  "days_in_month y m =
     (if m = 2 then (if leap_year y then 29 else 28)
      else if m = 4 \<or> m = 6 \<or> m = 9 \<or> m = 11 then 30 else 31)"

text \<open>The days from 1970-01-01 to the given day of the proleptic Gregorian calendar.\<close>

definition days_from_civil :: "nat \<Rightarrow> nat \<Rightarrow> nat \<Rightarrow> int" where
  "days_from_civil y m d =
     (let y' = (if m \<le> 2 then y - 1 else y);
          era = y' div 400;
          yoe = y' mod 400;
          doy = (153 * (if 2 < m then m - 3 else m + 9) + 2) div 5 + d - 1;
          doe = yoe * 365 + yoe div 4 - yoe div 100 + doy
      in int (era * 146097 + doe) - 719468)"

definition iso_date :: "jsval \<Rightarrow> int option" where
  "iso_date v =
     (case v of
        JStr s \<Rightarrow>
          (let y = digits_val (take 4 s); m = digits_val (take 2 (drop 5 s));
               d = digits_val (take 2 (drop 8 s))
           in if length s = 10 \<and> s ! 4 = CHR ''-'' \<and> s ! 7 = CHR ''-''
                 \<and> list_all is_digit (take 4 s @ take 2 (drop 5 s) @ drop 8 s)
                 \<and> 1970 \<le> y \<and> 1 \<le> m \<and> m \<le> 12 \<and> 1 \<le> d \<and> d \<le> days_in_month y m
              then Some (days_from_civil y m d * 86400000)
              else None)
      | _ \<Rightarrow> None)"

section \<open>Notions used in the statements\<close>

text \<open>An array element that the date comparators can order: an object (or any value
  but \<^verbatim>\<open>null\<close> and \<^verbatim>\<open>undefined\<close>) whose \<^verbatim>\<open>date\<close> converts to a primitive and
  is a valid date.\<close>

definition dated :: "(jsval \<Rightarrow> int option) \<Rightarrow> jsval \<Rightarrow> bool" where
  "dated tv x =
     (\<not> nullish x \<and> \<not> raises (field x ''date'') \<and> tv (field x ''date'') \<noteq> None)"

text \<open>The time value of the \<^verbatim>\<open>date\<close> of an element.\<close>

definition time_of :: "(jsval \<Rightarrow> int option) \<Rightarrow> jsval \<Rightarrow> int" where
  "time_of tv x = (case tv (field x ''date'') of Some t \<Rightarrow> t | None \<Rightarrow> 0)"

text \<open>A collection in which no entry comes before one of a later date.\<close>

definition descending_by_date :: "(jsval \<Rightarrow> int option) \<Rightarrow> jsval list \<Rightarrow> bool" where
  "descending_by_date tv es = sorted_wrt (\<lambda>a b. time_of tv b \<le> time_of tv a) es"

text \<open>A user id as \<^verbatim>\<open>register\<close> makes it: decimal digits.\<close>

definition digits_only :: "string \<Rightarrow> bool" where
  "digits_only s = (s \<noteq> [] \<and> list_all is_digit s)"

text \<open>The five files of a user.\<close>

definition user_paths :: "string \<Rightarrow> string set" where
  "user_paths u =
     {getUserEntriesFile u, getUserNutritionFile u, getUserNutritionSettingsFile u,
      dietFile u, dietSettingsFile u}"

text \<open>A sequence of requests to protected routes, each with the clock at which it is
  served.\<close>

fun run :: "(env \<times> route \<times> request) list \<Rightarrow> world \<Rightarrow> world" where
  "run [] w = w"
| "run ((e, r, req) # rest) w = run rest (snd (serve e r req w))"


section \<open>Example data\<close>

text \<open>A stand-in for \<^verbatim>\<open>bcryptjs\<close> in the examples. Like the library, it rejects a
  password that is not a string.\<close>

definition ex_hash :: "jsval \<Rightarrow> string option" where
  "ex_hash p = (case p of JStr s \<Rightarrow> Some (''$2a$10$'' @ s) | _ \<Rightarrow> None)"

definition ex_compare :: "jsval \<Rightarrow> string \<Rightarrow> bool option" where
  "ex_compare p h = (case p of JStr s \<Rightarrow> Some (h = ''$2a$10$'' @ s) | _ \<Rightarrow> None)"

text \<open>The rounding of the examples leaves a number as it is, which is right for the
  literals in them: each denotes a double.\<close>

definition ex_round :: "rat \<Rightarrow> jsnum" where
  "ex_round q = Fin q"

definition ex_env :: env where
  "ex_env = \<lparr>now = 1709300000000, date_value = iso_date, to_double = ex_round,
             bcrypt_hash = ex_hash, bcrypt_compare = ex_compare\<rparr>"

definition alice :: string where
  "alice = ''1709000000000''"

definition bob :: string where
  "bob = ''1709000000001''"

definition as_user :: "string \<Rightarrow> jsval \<Rightarrow> request" where
  "as_user u b = \<lparr>session_userId = Some u, body = b, params_id = []\<rparr>"

definition march_entry :: jsval where
  "march_entry = JObj [(''id'', JNum 1709100000000), (''date'', JStr ''2024-03-01''),
                       (''weight'', JNum 70)]"

definition alice_user :: user where
  "alice_user = \<lparr>user_id = alice, username = JStr ''alice'', email = JStr [],
                 password = ''$2a$10$secret'', createdAt = 1709000000000\<rparr>"

text \<open>A data directory in which every read and write succeeds: \<open>alice\<close> is registered
  and has one weight entry.\<close>

definition ex_world :: world where
  "ex_world =
     \<lparr>users = Parsed [alice_user],
      users_rfail = False, users_wfail = False,
      files = [getUserEntriesFile alice \<mapsto> Parsed (JArr [march_entry])],
      rfail = (\<lambda>p. False), wfail = (\<lambda>p. False)\<rparr>"

definition february_body :: jsval where
  "february_body = JObj [(''date'', JStr ''2024-02-01''), (''weight'', JStr ''69.5'')]"

text \<open>The entry that the add of \<open>february_body\<close> makes at the clock of the examples.\<close>

definition february_entry :: jsval where
  "february_entry = JObj [(''id'', JNum 1709300000000), (''date'', JStr ''2024-02-01''),
                          (''weight'', JNum (139 / 2))]"

text \<open>Bodies for the settings routes: the scenario of the specification, and two saves
  of which the second leaves out what the first set.\<close>

definition scenario_settings :: jsval where
  "scenario_settings = JObj [(''calorieGoal'', JStr ''1800''), (''proteinGoal'', JStr ''abc'')]"

definition first_save :: jsval where
  "first_save = JObj [(''calorieGoal'', JNum 1800)]"

definition second_save :: jsval where
  "second_save = JObj [(''proteinGoal'', JNum 100)]"

definition zero_calories :: jsval where
  "zero_calories = JObj [(''calorieGoal'', JNum 0), (''proteinGoal'', JNum 120)]"

text \<open>A body whose \<^verbatim>\<open>proteinGoal\<close> is an object with a property \<^verbatim>\<open>toString\<close>.\<close>

definition throwing_settings :: jsval where
  "throwing_settings =
     JObj [(''calorieGoal'', JNum 0), (''proteinGoal'', JObj [(''toString'', JNum 1)])]"

text \<open>Bodies for the login route and for registration.\<close>

definition anon :: "jsval \<Rightarrow> request" where
  "anon b = \<lparr>session_userId = None, body = b, params_id = []\<rparr>"

definition unknown_login :: jsval where
  "unknown_login = JObj [(''username'', JStr ''mallory''), (''password'', JStr ''secret'')]"

definition wrong_password_login :: jsval where
  "wrong_password_login = JObj [(''username'', JStr ''alice''), (''password'', JStr ''guess'')]"

text \<open>Two attempts with the number 123 as the password.\<close>

definition unknown_login_123 :: jsval where
  "unknown_login_123 = JObj [(''username'', JStr ''mallory''), (''password'', JNum 123)]"

definition alice_login_123 :: jsval where
  "alice_login_123 = JObj [(''username'', JStr ''alice''), (''password'', JNum 123)]"

definition carol_registration :: jsval where
  "carol_registration = JObj [(''username'', JStr ''carol''), (''password'', JStr ''pw'')]"

text \<open>The same data directory when no file of it can be written.\<close>

definition read_only_world :: world where
  "read_only_world = ex_world\<lparr>users_wfail := True, wfail := (\<lambda>p. True)\<rparr>"

text \<open>Bodies for the weight route: a weight that is no number, and a second entry.\<close>

definition abc_weight :: jsval where
  "abc_weight = JObj [(''date'', JStr ''2024-02-01''), (''weight'', JStr ''abc'')]"

definition no_weight :: jsval where
  "no_weight = JObj [(''date'', JStr ''2024-02-01'')]"

definition january_body :: jsval where
  "january_body = JObj [(''date'', JStr ''2024-01-15''), (''weight'', JNum 71)]"

text \<open>Nutrition entries: two stored meals, newest first, and bodies for the add and for
  the bulk save.\<close>

definition feb_meal :: jsval where
  "feb_meal = JObj [(''id'', JNum 1709100000001), (''date'', JStr ''2024-02-10''),
                    (''type'', JStr ''lunch''), (''name'', JStr ''rice''),
                    (''calories'', JNum 600), (''protein'', JNum 12), (''carbs'', JNum 130),
                    (''fats'', JNum 2)]"

definition jan_meal :: jsval where
  "jan_meal = JObj [(''id'', JNum 1709100000002), (''date'', JStr ''2024-01-20''),
                    (''type'', JStr ''dinner''), (''name'', JStr ''dal''),
                    (''calories'', JNum 350), (''protein'', JNum 20), (''carbs'', JNum 50),
                    (''fats'', JNum 5)]"

definition nutrition_world :: world where
  "nutrition_world =
     ex_world\<lparr>files := (files ex_world)
        (getUserNutritionFile alice \<mapsto> Parsed (JArr [feb_meal, jan_meal]))\<rparr>"

definition snack_body :: jsval where
  "snack_body = JObj [(''date'', JStr ''2024-02-10''), (''type'', JStr ''snack''),
                      (''name'', JStr ''apple''), (''calories'', JStr ''95'')]"

definition delete_jan :: request where
  "delete_jan = \<lparr>session_userId = Some alice, body = JObj [], params_id = ''1709100000002''\<rparr>"

definition oldest_first :: jsval where
  "oldest_first = JArr [jan_meal, feb_meal]"

text \<open>A delete by the id that the clock of the examples gives.\<close>

definition delete_by_clock :: request where
  "delete_by_clock = \<lparr>session_userId = Some bob, body = JObj [], params_id = ''1709300000000''\<rparr>"

text \<open>A weight collection in which an earlier add stored a date that is no date.\<close>

definition bad_entry :: jsval where
  "bad_entry = JObj [(''id'', JNum 1709200000000), (''date'', JStr ''bad''),
                     (''weight'', JNum 70)]"

definition bad_date_world :: world where
  "bad_date_world =
     ex_world\<lparr>files := (files ex_world)
        (getUserEntriesFile bob \<mapsto> Parsed (JArr [march_entry, bad_entry]))\<rparr>"

section \<open>Sorting by date is the stable sort on time values\<close>

lemma insert_by_insort_key:
  "\<forall>y\<in>set ys. (cmp x y \<le> 0) = (k x \<le> k y) \<Longrightarrow> insert_by cmp x ys = insort_key k x ys"
  by (induction ys) auto

lemma foldr_insert_by_sort_key:
  "\<forall>x\<in>set xs. \<forall>y\<in>set xs. (cmp x y \<le> 0) = (k x \<le> k y) \<Longrightarrow>
   foldr (insert_by cmp) xs [] = sort_key k xs"
proof (induction xs)
  case Nil
  show ?case by simp
next
  case (Cons x xs)
  have tail: "foldr (insert_by cmp) xs [] = sort_key k xs"
    using Cons by simp
  have "\<forall>y\<in>set (sort_key k xs). (cmp x y \<le> 0) = (k x \<le> k y)"
    using Cons.prems by simp
  then show ?case
    using tail by (simp add: insert_by_insort_key)
qed

lemma dated_not_Undefined: "list_all (dated tv) xs \<Longrightarrow> filter (\<lambda>x. x \<noteq> Undefined) xs = xs"
  by (induction xs) (auto simp: dated_def)

lemma dated_no_Undefined: "list_all (dated tv) xs \<Longrightarrow> filter (\<lambda>x. x = Undefined) xs = []"
  by (induction xs) (auto simp: dated_def)

lemma dated_comparable:
  "list_all (dated tv) xs \<Longrightarrow> \<not> list_ex (\<lambda>x. x = Null \<or> raises (field x ''date'')) xs"
  by (induction xs) (auto simp: dated_def)


lemma date_desc_le:
  "dated tv a \<Longrightarrow> dated tv b \<Longrightarrow> (date_desc tv a b \<le> 0) = (- time_of tv a \<le> - time_of tv b)"
  by (auto simp: dated_def date_desc_def date_asc_def time_of_def)


lemma array_sort_desc:
  assumes "list_all (dated tv) xs"
  shows "array_sort (date_desc tv) xs = sort_key (\<lambda>x. - time_of tv x) xs"
proof -
  have "foldr (insert_by (date_desc tv)) xs [] = sort_key (\<lambda>x. - time_of tv x) xs"
    using assms by (intro foldr_insert_by_sort_key) (simp add: list_all_iff date_desc_le)
  then show ?thesis
    using assms by (simp add: array_sort_def dated_not_Undefined dated_no_Undefined)
qed

lemma sort_by_date_dated:
  "list_all (dated tv) xs \<Longrightarrow> sort_by_date cmp xs = Some (array_sort cmp xs)"
  by (simp add: sort_by_date_def dated_not_Undefined dated_comparable)

lemmas ex_defs = ex_env_def ex_round_def ex_world_def alice_user_def alice_def bob_def as_user_def
  march_entry_def february_body_def february_entry_def ex_hash_def ex_compare_def
  scenario_settings_def first_save_def second_save_def zero_calories_def
  throwing_settings_def anon_def unknown_login_def wrong_password_login_def
  unknown_login_123_def alice_login_123_def carol_registration_def read_only_world_def
  abc_weight_def no_weight_def january_body_def feb_meal_def jan_meal_def
  nutrition_world_def snack_body_def delete_jan_def oldest_first_def delete_by_clock_def
  bad_entry_def bad_date_world_def

lemmas date_defs = iso_date_def digits_val_def digit_val_def is_digit_def days_in_month_def
  leap_year_def days_from_civil_def

lemmas path_defs = getUserEntriesFile_def getUserNutritionFile_def
  getUserNutritionSettingsFile_def dietFile_def dietSettingsFile_def path_join_def
  ENTRIES_DIR_def

lemmas parse_defs = parseFloat_def parseFloat_str_def ws3_def is_digit_def digits_val_def
  digit_val_def scale10_def exponent_part_def

section \<open>Weight entries: add, then list\<close>



text \<open>The list it returns: February before March.\<close>

lemma add_then_list_example:
  "fst (serve ex_env GetEntries (as_user alice Null)
     (snd (serve ex_env PostEntries (as_user alice february_body) ex_world)))
   = Resp 200 (JArr [february_entry, march_entry])"
  by (simp add: ex_defs date_defs path_defs parse_defs serve_def isAuthenticated_def
      post_entries_def get_entries_def readUserEntries_def read_json_def writeUserEntries_def
      write_json_def sort_by_date_def array_sort_def date_asc_def Let_def)


text \<open>The route takes every truthy date. Where an earlier add has stored the date
  \<^verbatim>\<open>'bad'\<close> after an entry of March, the comparator is not consistent: the entry of
  a later add for January compares equal to its neighbour and is listed after the entry
  of March.\<close>

lemma invalid_date_stored_example:
  "fst (serve ex_env GetEntries (as_user bob Null)
     (snd (serve ex_env PostEntries (as_user bob january_body) bad_date_world)))
   = Resp 200 (JArr [march_entry, bad_entry,
                     JObj [(''id'', JNum 1709300000000), (''date'', JStr ''2024-01-15''),
                           (''weight'', JNum 71)]])"
  by (simp add: ex_defs date_defs path_defs parse_defs serve_def isAuthenticated_def
      post_entries_def get_entries_def readUserEntries_def read_json_def writeUserEntries_def
      write_json_def sort_by_date_def array_sort_def date_asc_def Let_def)

section \<open>Saving the goals\<close>

lemma num_field_Some:
  "\<not> raises v \<Longrightarrow> num_field rd v d = Some (or_default (parse_number rd v) d)"
  by (simp add: num_field_def parseFloat_def)

lemma num_field_None: "raises v \<Longrightarrow> num_field rd v d = None"
  by (simp add: num_field_def parseFloat_def)










lemma save_settings_example:
  "fst (serve ex_env GetNutritionSettings (as_user alice Null)
     (snd (serve ex_env PostNutritionSettings (as_user alice scenario_settings) ex_world)))
   = Resp 200 (JObj [(''calorieGoal'', JNum 1800), (''proteinGoal'', JNum 150),
                     (''carbsGoal'', JNum 200), (''fatsGoal'', JNum 65)])"
  by (simp add: ex_defs path_defs parse_defs serve_def isAuthenticated_def
      post_nutrition_settings_def get_nutrition_settings_def readUserNutritionSettings_def
      writeUserNutritionSettings_def read_json_def write_json_def settings_of_def
      num_field_def or_default_def)




section \<open>Login\<close>

text \<open>Where \<^verbatim>\<open>bcrypt.compare\<close> returns \<^verbatim>\<open>false\<close>, the attempt with a stored username
  gets the reply of the attempt with an unknown one.\<close>

lemma login_wrong_password_like_unknown:
  assumes present: "truthy (field (body r1) ''username'')" "truthy (field (body r1) ''password'')"
      "truthy (field (body r2) ''username'')" "truthy (field (body r2) ''password'')"
    and unknown: "find (\<lambda>u. strict_eq (username u) (field (body r1) ''username'')) (readUsers w) = None"
    and known: "find (\<lambda>u. strict_eq (username u) (field (body r2) ''username'')) (readUsers w) = Some u"
    and wrong: "bcrypt_compare e (field (body r2) ''password'') (password u) = Some False"
  shows "login e r1 w = (Resp 401 (err ''Invalid credentials''), None)
       \<and> login e r2 w = login e r1 w"
  using assms by (simp add: login_def Let_def)

text \<open>
  C6. Take two login attempts that both carry a username and a password: one whose
  username no stored user has, and one whose username a stored user has but whose
  password \<^verbatim>\<open>bcrypt.compare\<close> rejects as an argument, as it does for a password that is
  not a string. The first gets the reply 401 with \<^verbatim>\<open>{error: 'Invalid credentials'}\<close>;
  the second ends with the exception, so the two replies differ.
\<close>

theorem login_rejected_password_differs:
  assumes present: "truthy (field (body r1) ''username'')" "truthy (field (body r1) ''password'')"
      "truthy (field (body r2) ''username'')" "truthy (field (body r2) ''password'')"
    and unknown: "find (\<lambda>u. strict_eq (username u) (field (body r1) ''username'')) (readUsers w) = None"
    and known: "find (\<lambda>u. strict_eq (username u) (field (body r2) ''username'')) (readUsers w) = Some u"
    and rejected: "bcrypt_compare e (field (body r2) ''password'') (password u) = None"
  shows "login e r1 w = (Resp 401 (err ''Invalid credentials''), None)
       \<and> login e r2 w = (Uncaught, None)
       \<and> login e r2 w \<noteq> login e r1 w"
  using assms by (simp add: login_def Let_def)

text \<open>Both attempts send the number 123 as the password; \<^verbatim>\<open>mallory\<close> is not
  registered, \<^verbatim>\<open>alice\<close> is.\<close>

theorem login_rejected_password_differs_witness:
  "(truthy (field (body (anon unknown_login_123)) ''username'')
    \<and> truthy (field (body (anon unknown_login_123)) ''password'')
    \<and> truthy (field (body (anon alice_login_123)) ''username'')
    \<and> truthy (field (body (anon alice_login_123)) ''password'')
    \<and> find (\<lambda>u. strict_eq (username u) (field (body (anon unknown_login_123)) ''username''))
         (readUsers ex_world) = None
    \<and> find (\<lambda>u. strict_eq (username u) (field (body (anon alice_login_123)) ''username''))
         (readUsers ex_world) = Some alice_user
    \<and> bcrypt_compare ex_env (field (body (anon alice_login_123)) ''password'')
         (password alice_user) = None)
   \<and> login ex_env (anon unknown_login_123) ex_world
       = (Resp 401 (err ''Invalid credentials''), None)
   \<and> login ex_env (anon alice_login_123) ex_world = (Uncaught, None)
   \<and> login ex_env (anon alice_login_123) ex_world
       \<noteq> login ex_env (anon unknown_login_123) ex_world"
proof -
  have p: "truthy (field (body (anon unknown_login_123)) ''username'')"
    "truthy (field (body (anon unknown_login_123)) ''password'')"
    "truthy (field (body (anon alice_login_123)) ''username'')"
    "truthy (field (body (anon alice_login_123)) ''password'')"
    by (simp_all add: ex_defs)
  have u: "find (\<lambda>u. strict_eq (username u) (field (body (anon unknown_login_123)) ''username''))
         (readUsers ex_world) = None"
    by (simp add: ex_defs readUsers_def)
  have k: "find (\<lambda>u. strict_eq (username u) (field (body (anon alice_login_123)) ''username''))
         (readUsers ex_world) = Some alice_user"
    by (simp add: ex_defs readUsers_def)
  have c: "bcrypt_compare ex_env (field (body (anon alice_login_123)) ''password'')
         (password alice_user) = None"
    by (simp add: ex_defs)
  show ?thesis
    using p u k c login_rejected_password_differs [OF p u k c] by blast
qed

text \<open>With a string as the wrong password, the two replies are the same.\<close>

lemma login_wrong_password_example:
  "login ex_env (anon unknown_login) ex_world = (Resp 401 (err ''Invalid credentials''), None)
   \<and> login ex_env (anon wrong_password_login) ex_world
       = (Resp 401 (err ''Invalid credentials''), None)"
  by (simp add: ex_defs login_def readUsers_def Let_def)

section \<open>Validation of a weight entry\<close>

text \<open>
  C7, as the code has it. When a signed-in user adds a weight entry whose date or
  weight is missing or falsy (\<^verbatim>\<open>undefined\<close>, \<^verbatim>\<open>null\<close>, \<^verbatim>\<open>false\<close>, \<open>0\<close> or the
  empty string), the reply is 400 with \<^verbatim>\<open>{error: 'Date and weight are required'}\<close>,
  the storage is left as it was, and the reply is the same on every storage: nothing is
  read or written before it.
\<close>

theorem add_rejects_missing_fields:
  assumes auth: "session_userId req = Some u" "u \<noteq> []"
    and missing: "\<not> truthy (field (body req) ''date'') \<or> \<not> truthy (field (body req) ''weight'')"
  shows "serve e PostEntries req w = (Resp 400 (err ''Date and weight are required''), w)
       \<and> (\<forall>w2. fst (serve e PostEntries req w2) = fst (serve e PostEntries req w))"
  using assms by (auto simp: serve_def isAuthenticated_def post_entries_def Let_def)

theorem add_rejects_missing_fields_witness:
  "(session_userId (as_user alice no_weight) = Some alice \<and> alice \<noteq> []
    \<and> \<not> truthy (field (body (as_user alice no_weight)) ''weight''))
   \<and> serve ex_env PostEntries (as_user alice no_weight) ex_world
       = (Resp 400 (err ''Date and weight are required''), ex_world)
   \<and> (\<forall>w2. fst (serve ex_env PostEntries (as_user alice no_weight) w2)
            = fst (serve ex_env PostEntries (as_user alice no_weight) ex_world))"
proof -
  have a: "session_userId (as_user alice no_weight) = Some alice" "alice \<noteq> []"
    by (simp_all add: ex_defs)
  have n: "\<not> truthy (field (body (as_user alice no_weight)) ''weight'')"
    by (simp add: ex_defs)
  then have m: "\<not> truthy (field (body (as_user alice no_weight)) ''date'')
       \<or> \<not> truthy (field (body (as_user alice no_weight)) ''weight'')"
    by simp
  show ?thesis
    using a n add_rejects_missing_fields [OF a m] by blast
qed

text \<open>
  C7, as the specification has it, fails: the weight \<^verbatim>\<open>"abc"\<close> is not numeric, yet the
  add answers 201 and the entry is written, with the weight \<^verbatim>\<open>null\<close>.
\<close>

theorem non_numeric_weight_accepted_counterexample:
  "parseFloat (to_double ex_env) (field abc_weight ''weight'') = Some NaN
   \<and> serve ex_env PostEntries (as_user bob abc_weight) ex_world
     = (Resp 201 (JObj [(''id'', JNum 1709300000000), (''date'', JStr ''2024-02-01''),
                        (''weight'', Null)]),
        ex_world\<lparr>files := (files ex_world)(getUserEntriesFile bob \<mapsto>
           Parsed (JArr [JObj [(''id'', JNum 1709300000000), (''date'', JStr ''2024-02-01''),
                               (''weight'', Null)]]))\<rparr>)"
  by (simp add: ex_defs path_defs parse_defs serve_def isAuthenticated_def post_entries_def
      readUserEntries_def writeUserEntries_def read_json_def write_json_def sort_by_date_def
      array_sort_def Let_def)

section \<open>Identifiers\<close>

text \<open>
  C4. The id of a new entry is \<^verbatim>\<open>Date.now()\<close>. Two adds by one user that are served in
  the same millisecond leave two entries with the same id in the collection.
\<close>

theorem same_millisecond_same_id:
  "fst (serve ex_env GetEntries (as_user bob Null)
     (snd (serve ex_env PostEntries (as_user bob january_body)
        (snd (serve ex_env PostEntries (as_user bob february_body) ex_world)))))
   = Resp 200 (JArr [JObj [(''id'', JNum 1709300000000), (''date'', JStr ''2024-01-15''),
                           (''weight'', JNum 71)],
                     JObj [(''id'', JNum 1709300000000), (''date'', JStr ''2024-02-01''),
                           (''weight'', JNum (139 / 2))]])"
  by (simp add: ex_defs path_defs parse_defs date_defs serve_def isAuthenticated_def
      post_entries_def get_entries_def
      readUserEntries_def writeUserEntries_def read_json_def write_json_def sort_by_date_def
      array_sort_def date_asc_def Let_def)

text \<open>A delete by that id then removes both entries.\<close>

lemma delete_removes_both_example:
  "fst (serve ex_env GetEntries (as_user bob Null)
     (snd (serve ex_env DeleteEntriesId delete_by_clock
        (snd (serve ex_env PostEntries (as_user bob january_body)
           (snd (serve ex_env PostEntries (as_user bob february_body) ex_world)))))))
   = Resp 200 (JArr [])"
  by (simp add: ex_defs path_defs parse_defs date_defs serve_def isAuthenticated_def
      post_entries_def get_entries_def delete_entries_id_def filter_id_def parseInt_def
      readUserEntries_def writeUserEntries_def read_json_def write_json_def sort_by_date_def
      array_sort_def date_asc_def Let_def)

section \<open>Storage failures\<close>

text \<open>
  C8. When \<^verbatim>\<open>register\<close> gets a username that no stored user has and a password
  that \<^verbatim>\<open>bcrypt.hash\<close> accepts, and neither \<^verbatim>\<open>users.json\<close> nor the entries file
  of the new id can be written, it answers 201 with the new user, and nothing is stored.
\<close>

theorem register_swallows_write_failure:
  assumes fields: "truthy (field (body req) ''username'')" "truthy (field (body req) ''password'')"
    and fresh: "\<not> list_ex (\<lambda>u. strict_eq (username u) (field (body req) ''username''))
                    (readUsers w)"
    and hash: "bcrypt_hash e (field (body req) ''password'') = Some h"
    and fail: "users_wfail w" "wfail w (getUserEntriesFile (decimal (now e)))"
  shows "register e req w
       = (Resp 201 (JObj [(''message'', JStr ''User registered successfully''),
                          (''user'', JObj [(''id'', JStr (decimal (now e))),
                                           (''username'', field (body req) ''username'')])]),
          w)"
  using assms
  by (simp add: register_def writeUsers_def writeUserEntries_def write_json_def Let_def)

theorem register_swallows_write_failure_witness:
  "(truthy (field (body (anon carol_registration)) ''username'')
    \<and> truthy (field (body (anon carol_registration)) ''password'')
    \<and> \<not> list_ex (\<lambda>u. strict_eq (username u)
                           (field (body (anon carol_registration)) ''username''))
           (readUsers read_only_world)
    \<and> bcrypt_hash ex_env (field (body (anon carol_registration)) ''password'')
        = Some ''$2a$10$pw''
    \<and> users_wfail read_only_world
    \<and> wfail read_only_world (getUserEntriesFile (decimal (now ex_env))))
   \<and> register ex_env (anon carol_registration) read_only_world
     = (Resp 201 (JObj [(''message'', JStr ''User registered successfully''),
                        (''user'', JObj [(''id'', JStr (decimal (now ex_env))),
                                         (''username'',
                                          field (body (anon carol_registration)) ''username'')])]),
        read_only_world)"
proof -
  have f: "truthy (field (body (anon carol_registration)) ''username'')"
    "truthy (field (body (anon carol_registration)) ''password'')"
    by (simp_all add: ex_defs)
  have n: "\<not> list_ex (\<lambda>u. strict_eq (username u)
                           (field (body (anon carol_registration)) ''username''))
           (readUsers read_only_world)"
    by (simp add: ex_defs readUsers_def)
  have h: "bcrypt_hash ex_env (field (body (anon carol_registration)) ''password'')
        = Some ''$2a$10$pw''"
    by (simp add: ex_defs)
  have w: "users_wfail read_only_world"
    "wfail read_only_world (getUserEntriesFile (decimal (now ex_env)))"
    by (simp_all add: read_only_world_def)
  show ?thesis
    using f n h w register_swallows_write_failure [OF f n h w] by blast
qed

text \<open>The reply in full, and the reply of the add of a weight entry on the same
  directory: the other mutating routes look at what the write returns.\<close>

lemma register_read_only_example:
  "register ex_env (anon carol_registration) read_only_world
     = (Resp 201 (JObj [(''message'', JStr ''User registered successfully''),
                        (''user'', JObj [(''id'', JStr ''1709300000000''),
                                         (''username'', JStr ''carol'')])]),
        read_only_world)
   \<and> list_all (\<lambda>u. username u \<noteq> JStr ''carol'')
        (readUsers (snd (register ex_env (anon carol_registration) read_only_world)))"
  by (simp add: ex_defs register_def readUsers_def writeUsers_def writeUserEntries_def
      write_json_def decimal.simps digit_char_def Let_def)

lemma add_read_only_example:
  "serve ex_env PostEntries (as_user alice february_body) read_only_world
     = (Resp 500 (err ''Failed to save entry''), read_only_world)"
  by (simp add: ex_defs path_defs parse_defs date_defs serve_def isAuthenticated_def
      post_entries_def readUserEntries_def writeUserEntries_def read_json_def write_json_def
      sort_by_date_def array_sort_def date_asc_def Let_def)

section \<open>Order of the nutrition entries\<close>

lemma descending_sort:
  "descending_by_date tv (sort_key (\<lambda>x. - time_of tv x) xs)"
proof -
  have "sorted (map (\<lambda>x. - time_of tv x) (sort_key (\<lambda>x. - time_of tv x) xs))"
    by simp
  then show ?thesis
    by (simp add: descending_by_date_def sorted_map)
qed

lemma descending_filter:
  "descending_by_date tv xs \<Longrightarrow> descending_by_date tv (filter P xs)"
  by (simp add: descending_by_date_def sorted_wrt_filter)

lemma stable_desc:
  "filter (\<lambda>x. time_of tv x = t) (sort_key (\<lambda>x. - time_of tv x) xs)
   = filter (\<lambda>x. time_of tv x = t) xs"
  using sort_key_stable [of "\<lambda>x. - time_of tv x" "- t" xs] by simp

lemma nutrition_add_sorted:
  assumes auth: "session_userId req = Some u" "u \<noteq> []"
    and store: "readUserNutrition w u = JArr old" "\<not> wfail w (getUserNutritionFile u)"
      "\<not> rfail w (getUserNutritionFile u)"
    and valid: "truthy (field (body req) ''date'')" "truthy (field (body req) ''type'')"
      "truthy (field (body req) ''name'')" "field (body req) ''calories'' \<noteq> Undefined"
      "\<not> raises (field (body req) ''date'')"
      "date_value e (field (body req) ''date'') \<noteq> None"
      "list_all (\<lambda>k. \<not> raises (field (body req) k))
         [''calories'', ''protein'', ''carbs'', ''fats'']"
      "list_all (dated (date_value e)) old"
  shows "\<exists>new es. fst (serve e PostNutritionEntry req w)
               = Resp 201 (JObj [(''success'', JBool True),
                                 (''message'', JStr ''Entry added successfully''),
                                 (''entry'', new)])
           \<and> readUserNutrition (snd (serve e PostNutritionEntry req w)) u = JArr es
           \<and> field new ''date'' = field (body req) ''date''
           \<and> descending_by_date (date_value e) es
           \<and> mset es = add_mset new (mset old)
           \<and> (\<forall>t. filter (\<lambda>x. time_of (date_value e) x = t) es
                  = filter (\<lambda>x. time_of (date_value e) x = t) (old @ [new]))"
proof -
  define num where "num = (\<lambda>k. or_default (parse_number (to_double e) (field (body req) k)) 0)"
  define new where "new = JObj [(''id'', JNum (of_nat (now e))),
      (''date'', field (body req) ''date''), (''type'', field (body req) ''type''),
      (''name'', field (body req) ''name''),
      (''calories'', num ''calories''), (''protein'', num ''protein''),
      (''carbs'', num ''carbs''), (''fats'', num ''fats'')]"
  define es where "es = sort_key (\<lambda>x. - time_of (date_value e) x) (old @ [new])"
  have "dated (date_value e) new"
    using valid by (simp add: dated_def new_def)
  then have all: "list_all (dated (date_value e)) (old @ [new])"
    using valid by simp
  have srt: "sort_by_date (date_desc (date_value e)) (old @ [new]) = Some es"
    using all by (simp only: sort_by_date_dated array_sort_desc es_def)
  have post: "serve e PostNutritionEntry req w
      = (Resp 201 (JObj [(''success'', JBool True),
                         (''message'', JStr ''Entry added successfully''), (''entry'', new)]),
         w\<lparr>files := (files w)(getUserNutritionFile u \<mapsto> Parsed (JArr es))\<rparr>)"
    unfolding new_def num_def
    using auth valid(1-4,7) store srt [unfolded new_def num_def]
    by (simp add: serve_def isAuthenticated_def post_nutrition_entry_def Let_def macros_def
        num_field_Some writeUserNutrition_def write_json_def)
  have rd: "readUserNutrition (snd (serve e PostNutritionEntry req w)) u = JArr es"
    using store by (simp add: post readUserNutrition_def read_json_def)
  have f: "field new ''date'' = field (body req) ''date''"
    by (simp add: new_def)
  have d: "descending_by_date (date_value e) es"
    unfolding es_def by (rule descending_sort)
  have m: "mset es = add_mset new (mset old)"
    by (simp add: es_def)
  have st: "\<forall>t. filter (\<lambda>x. time_of (date_value e) x = t) es
                = filter (\<lambda>x. time_of (date_value e) x = t) (old @ [new])"
    unfolding es_def by (intro allI stable_desc)
  from post rd f d m st show ?thesis by auto
qed

lemma nutrition_delete_subsequence:
  assumes auth: "session_userId req = Some u" "u \<noteq> []"
    and store: "readUserNutrition w u = JArr old" "\<not> wfail w (getUserNutritionFile u)"
      "\<not> rfail w (getUserNutritionFile u)"
  shows "\<exists>P. readUserNutrition (snd (serve e DeleteNutritionEntryId req w)) u
               = JArr (filter P old)
           \<and> (descending_by_date tv old \<longrightarrow> descending_by_date tv (filter P old))"
proof -
  define n where "n = parseInt (to_double e) (params_id req)"
  define kept where "kept = filter (\<lambda>x. strict_neq_num (field x ''id'') n) old"
  have "snd (serve e DeleteNutritionEntryId req w) = w
      \<or> snd (serve e DeleteNutritionEntryId req w)
          = w\<lparr>files := (files w)(getUserNutritionFile u \<mapsto> Parsed (JArr kept))\<rparr>"
    using auth store
    by (simp add: serve_def isAuthenticated_def delete_nutrition_entry_id_def Let_def
        filter_id_def writeUserNutrition_def write_json_def n_def kept_def)
  then consider (same) "snd (serve e DeleteNutritionEntryId req w) = w"
    | (written) "snd (serve e DeleteNutritionEntryId req w)
                   = w\<lparr>files := (files w)(getUserNutritionFile u \<mapsto> Parsed (JArr kept))\<rparr>"
    by blast
  then show ?thesis
  proof cases
    case same
    have "readUserNutrition (snd (serve e DeleteNutritionEntryId req w)) u
            = JArr (filter (\<lambda>x. True) old)"
      using store by (simp add: same)
    then show ?thesis
      using descending_filter [of tv old "\<lambda>x. True"] by blast
  next
    case written
    have "readUserNutrition (snd (serve e DeleteNutritionEntryId req w)) u = JArr kept"
      using store by (simp add: written readUserNutrition_def read_json_def)
    then show ?thesis
      unfolding kept_def
      using descending_filter [of tv old "\<lambda>x. strict_neq_num (field x ''id'') n"] by blast
  qed
qed

lemma nutrition_bulk_verbatim:
  assumes auth: "session_userId req = Some u" "u \<noteq> []"
    and store: "\<not> wfail w (getUserNutritionFile u)" "\<not> rfail w (getUserNutritionFile u)"
    and arr: "body req = JArr xs"
  shows "fst (serve e PostNutritionEntries req w)
           = Resp 200 (JObj [(''success'', JBool True),
                             (''message'', JStr ''Entries saved successfully''),
                             (''count'', JNum (of_nat (length xs)))])
       \<and> readUserNutrition (snd (serve e PostNutritionEntries req w)) u = JArr xs"
  using assms
  by (simp add: serve_def isAuthenticated_def post_nutrition_entries_def
      writeUserNutrition_def write_json_def readUserNutrition_def read_json_def)

text \<open>
  C5, as the code has it. On a storage that can be read and written, for a signed-in
  user whose nutrition collection is stored: after the add of a single entry with a
  valid date, and with numbers that convert to strings, to entries with valid dates, the
  stored collection is sorted descending by date, holds the stored entries and the new
  one, and keeps entries of equal date in the order they had, the new one last among
  them; after a remove the stored collection is a sub-sequence of the collection before,
  in unchanged order, so that a collection sorted descending stays so; a bulk save of an
  array stores that array as it is, in the order given.
\<close>

theorem nutrition_order_after_mutation:
  assumes auth: "session_userId add = Some u" "session_userId del = Some u"
      "session_userId bulk = Some u" "u \<noteq> []"
    and store: "readUserNutrition w u = JArr old" "\<not> wfail w (getUserNutritionFile u)"
      "\<not> rfail w (getUserNutritionFile u)"
  shows "(truthy (field (body add) ''date'') \<and> truthy (field (body add) ''type'')
          \<and> truthy (field (body add) ''name'') \<and> field (body add) ''calories'' \<noteq> Undefined
          \<and> \<not> raises (field (body add) ''date'')
          \<and> date_value e (field (body add) ''date'') \<noteq> None
          \<and> list_all (\<lambda>k. \<not> raises (field (body add) k))
               [''calories'', ''protein'', ''carbs'', ''fats'']
          \<and> list_all (dated (date_value e)) old
          \<longrightarrow> (\<exists>new es. fst (serve e PostNutritionEntry add w)
                            = Resp 201 (JObj [(''success'', JBool True),
                                              (''message'', JStr ''Entry added successfully''),
                                              (''entry'', new)])
                 \<and> readUserNutrition (snd (serve e PostNutritionEntry add w)) u = JArr es
                 \<and> field new ''date'' = field (body add) ''date''
                 \<and> descending_by_date (date_value e) es
                 \<and> mset es = add_mset new (mset old)
                 \<and> (\<forall>t. filter (\<lambda>x. time_of (date_value e) x = t) es
                        = filter (\<lambda>x. time_of (date_value e) x = t) (old @ [new]))))
       \<and> (\<exists>P. readUserNutrition (snd (serve e DeleteNutritionEntryId del w)) u
                 = JArr (filter P old)
             \<and> (descending_by_date (date_value e) old
                \<longrightarrow> descending_by_date (date_value e) (filter P old)))
       \<and> (\<forall>xs. body bulk = JArr xs
          \<longrightarrow> fst (serve e PostNutritionEntries bulk w)
                  = Resp 200 (JObj [(''success'', JBool True),
                                    (''message'', JStr ''Entries saved successfully''),
                                    (''count'', JNum (of_nat (length xs)))])
              \<and> readUserNutrition (snd (serve e PostNutritionEntries bulk w)) u = JArr xs)"
  using nutrition_add_sorted [OF auth(1) auth(4) store, of e]
    nutrition_delete_subsequence [OF auth(2) auth(4) store, of e "date_value e"]
    nutrition_bulk_verbatim [OF auth(3) auth(4) store(2) store(3), of _ e]
  by blast

text \<open>The stored collection holds a meal of 2024-02-10 and one of 2024-01-20; the add is
  a snack of 2024-02-10, the remove deletes the January meal, the bulk save sends the two
  meals oldest first.\<close>

theorem nutrition_order_after_mutation_witness:
  "(session_userId (as_user alice snack_body) = Some alice
    \<and> session_userId delete_jan = Some alice
    \<and> session_userId (as_user alice oldest_first) = Some alice \<and> alice \<noteq> []
    \<and> readUserNutrition nutrition_world alice = JArr [feb_meal, jan_meal]
    \<and> \<not> wfail nutrition_world (getUserNutritionFile alice)
    \<and> \<not> rfail nutrition_world (getUserNutritionFile alice)
    \<and> truthy (field (body (as_user alice snack_body)) ''date'')
    \<and> truthy (field (body (as_user alice snack_body)) ''type'')
    \<and> truthy (field (body (as_user alice snack_body)) ''name'')
    \<and> field (body (as_user alice snack_body)) ''calories'' \<noteq> Undefined
    \<and> \<not> raises (field (body (as_user alice snack_body)) ''date'')
    \<and> date_value ex_env (field (body (as_user alice snack_body)) ''date'') \<noteq> None
    \<and> list_all (\<lambda>k. \<not> raises (field (body (as_user alice snack_body)) k))
         [''calories'', ''protein'', ''carbs'', ''fats'']
    \<and> list_all (dated (date_value ex_env)) [feb_meal, jan_meal]
    \<and> descending_by_date (date_value ex_env) [feb_meal, jan_meal]
    \<and> body (as_user alice oldest_first) = JArr [jan_meal, feb_meal])
   \<and> (\<exists>new es. fst (serve ex_env PostNutritionEntry (as_user alice snack_body) nutrition_world)
                    = Resp 201 (JObj [(''success'', JBool True),
                                      (''message'', JStr ''Entry added successfully''),
                                      (''entry'', new)])
         \<and> readUserNutrition
              (snd (serve ex_env PostNutritionEntry (as_user alice snack_body) nutrition_world))
              alice = JArr es
         \<and> field new ''date'' = field (body (as_user alice snack_body)) ''date''
         \<and> descending_by_date (date_value ex_env) es
         \<and> mset es = add_mset new (mset [feb_meal, jan_meal])
         \<and> (\<forall>t. filter (\<lambda>x. time_of (date_value ex_env) x = t) es
                = filter (\<lambda>x. time_of (date_value ex_env) x = t) ([feb_meal, jan_meal] @ [new])))
   \<and> (\<exists>P. readUserNutrition
              (snd (serve ex_env DeleteNutritionEntryId delete_jan nutrition_world)) alice
            = JArr (filter P [feb_meal, jan_meal])
         \<and> descending_by_date (date_value ex_env) (filter P [feb_meal, jan_meal]))
   \<and> fst (serve ex_env PostNutritionEntries (as_user alice oldest_first) nutrition_world)
       = Resp 200 (JObj [(''success'', JBool True),
                         (''message'', JStr ''Entries saved successfully''),
                         (''count'', JNum (of_nat (length [jan_meal, feb_meal])))])
   \<and> readUserNutrition
        (snd (serve ex_env PostNutritionEntries (as_user alice oldest_first) nutrition_world))
        alice = JArr [jan_meal, feb_meal]"
proof -
  have a: "session_userId (as_user alice snack_body) = Some alice"
    "session_userId delete_jan = Some alice"
    "session_userId (as_user alice oldest_first) = Some alice" "alice \<noteq> []"
    by (simp_all add: ex_defs)
  have s: "readUserNutrition nutrition_world alice = JArr [feb_meal, jan_meal]"
    "\<not> wfail nutrition_world (getUserNutritionFile alice)"
    "\<not> rfail nutrition_world (getUserNutritionFile alice)"
    by (simp_all add: nutrition_world_def ex_world_def readUserNutrition_def read_json_def)
  have v: "truthy (field (body (as_user alice snack_body)) ''date'')"
    "truthy (field (body (as_user alice snack_body)) ''type'')"
    "truthy (field (body (as_user alice snack_body)) ''name'')"
    "field (body (as_user alice snack_body)) ''calories'' \<noteq> Undefined"
    "\<not> raises (field (body (as_user alice snack_body)) ''date'')"
    "date_value ex_env (field (body (as_user alice snack_body)) ''date'') \<noteq> None"
    "list_all (\<lambda>k. \<not> raises (field (body (as_user alice snack_body)) k))
         [''calories'', ''protein'', ''carbs'', ''fats'']"
    by (simp_all add: ex_defs date_defs)
  have d: "list_all (dated (date_value ex_env)) [feb_meal, jan_meal]"
    "descending_by_date (date_value ex_env) [feb_meal, jan_meal]"
    by (simp_all add: ex_defs date_defs dated_def descending_by_date_def time_of_def)
  have b: "body (as_user alice oldest_first) = JArr [jan_meal, feb_meal]"
    by (simp add: as_user_def oldest_first_def)
  show ?thesis
    using a s v d b nutrition_order_after_mutation [OF a s, of ex_env] by blast
qed

text \<open>The collection after the add: the snack of 2024-02-10 comes after the stored meal
  of that day.\<close>

lemma nutrition_add_example:
  "readUserNutrition
     (snd (serve ex_env PostNutritionEntry (as_user alice snack_body) nutrition_world)) alice
   = JArr [feb_meal,
           JObj [(''id'', JNum 1709300000000), (''date'', JStr ''2024-02-10''),
                 (''type'', JStr ''snack''), (''name'', JStr ''apple''),
                 (''calories'', JNum 95), (''protein'', JNum 0), (''carbs'', JNum 0),
                 (''fats'', JNum 0)],
           jan_meal]"
  by (simp add: ex_defs date_defs path_defs parse_defs serve_def isAuthenticated_def
      post_nutrition_entry_def macros_def num_field_def or_default_def readUserNutrition_def
      writeUserNutrition_def read_json_def write_json_def sort_by_date_def array_sort_def
      date_desc_def date_asc_def Let_def)

text \<open>
  C5, as the specification has it, fails for the bulk save: the two meals sent oldest
  first are stored oldest first, which is not descending by date.
\<close>

theorem bulk_save_unsorted_counterexample:
  "readUserNutrition
     (snd (serve ex_env PostNutritionEntries (as_user alice oldest_first) ex_world)) alice
     = JArr [jan_meal, feb_meal]
   \<and> \<not> descending_by_date iso_date [jan_meal, feb_meal]"
  by (simp add: ex_defs path_defs date_defs serve_def isAuthenticated_def
      post_nutrition_entries_def readUserNutrition_def writeUserNutrition_def read_json_def
      write_json_def descending_by_date_def time_of_def)

section \<open>One user's files and another's\<close>

lemmas route_defs = get_entries_def post_entries_def delete_entries_id_def
  get_nutrition_entries_def post_nutrition_entries_def post_nutrition_entry_def
  delete_nutrition_entry_id_def get_nutrition_settings_def post_nutrition_settings_def
  get_diet_def post_diet_def delete_diet_id_def get_diet_settings_def post_diet_settings_def

lemmas storage_defs = readUserEntries_def writeUserEntries_def readUserNutrition_def
  writeUserNutrition_def readUserNutritionSettings_def writeUserNutritionSettings_def

lemma write_json_files:
  "q \<noteq> p \<Longrightarrow> files (snd (write_json w p v)) q = files w q"
  by (simp add: write_json_def)

lemma write_json_rfail: "rfail (snd (write_json w p v)) = rfail w"
  by (simp add: write_json_def)

lemma case_write_snd:
  "snd (case write_json w p v of (True, w') \<Rightarrow> (a, w') | (False, w') \<Rightarrow> (b, w'))
   = snd (write_json w p v)"
  by (simp add: write_json_def)

lemma handler_changes:
  "snd (handler e r u req w) = w
   \<or> (\<exists>p \<in> user_paths u. \<exists>v. snd (handler e r u req w) = snd (write_json w p v))"
proof (cases r)
  case PostEntries
  then show ?thesis
    by (simp add: post_entries_def storage_defs user_paths_def Let_def case_write_snd
        split: jsval.splits option.splits) blast
next
  case DeleteEntriesId
  then show ?thesis
    by (simp add: delete_entries_id_def storage_defs user_paths_def Let_def case_write_snd
        split: jsval.splits option.splits) blast
next
  case PostNutritionEntries
  then show ?thesis
    by (simp add: post_nutrition_entries_def storage_defs user_paths_def case_write_snd
        split: jsval.splits) blast
next
  case PostNutritionEntry
  then show ?thesis
    by (simp add: post_nutrition_entry_def storage_defs user_paths_def Let_def case_write_snd
        split: jsval.splits option.splits) blast
next
  case DeleteNutritionEntryId
  then show ?thesis
    by (simp add: delete_nutrition_entry_id_def storage_defs user_paths_def Let_def
        case_write_snd split: jsval.splits option.splits) blast
next
  case PostNutritionSettings
  then show ?thesis
    by (simp add: post_nutrition_settings_def storage_defs user_paths_def case_write_snd
        split: option.splits) blast
next
  case PostDiet
  then show ?thesis
    by (simp add: post_diet_def user_paths_def Let_def case_write_snd
        split: jsval.splits option.splits) blast
next
  case DeleteDietId
  then show ?thesis
    by (simp add: delete_diet_id_def user_paths_def Let_def case_write_snd
        split: jsval.splits option.splits stored.splits) blast
next
  case PostDietSettings
  then show ?thesis
    by (simp add: post_diet_settings_def user_paths_def case_write_snd
        split: option.splits) blast
qed (simp_all add: route_defs)


lemma digits_prefix:
  "list_all is_digit a \<Longrightarrow> \<not> is_digit c \<Longrightarrow> takeWhile is_digit (a @ c # s) = a"
  by (induction a) simp_all

lemma suffix_paths_differ:
  assumes "list_all is_digit a" "list_all is_digit b" "a \<noteq> b"
    and "\<not> is_digit c" "\<not> is_digit d"
  shows "path_join ENTRIES_DIR (a @ c # s) \<noteq> path_join ENTRIES_DIR (b @ d # t)"
proof
  assume "path_join ENTRIES_DIR (a @ c # s) = path_join ENTRIES_DIR (b @ d # t)"
  then have "a @ c # s = b @ d # t"
    by (simp add: path_join_def)
  then have "takeWhile is_digit (a @ c # s) = takeWhile is_digit (b @ d # t)"
    by simp
  then have "a = b"
    using assms by (simp add: digits_prefix)
  with assms show False by simp
qed

lemma not_digit_dot: "\<not> is_digit CHR ''.''"
  by (simp add: is_digit_def)

lemma not_digit_underscore: "\<not> is_digit CHR ''_''"
  by (simp add: is_digit_def)

lemma user_paths_disjoint:
  assumes "digits_only a" "digits_only b" "a \<noteq> b"
  shows "user_paths a \<inter> user_paths b = {}"
proof -
  have d: "list_all is_digit a" "list_all is_digit b"
    using assms by (simp_all add: digits_only_def)
  note n = suffix_paths_differ [OF d assms(3)] suffix_paths_differ [OF d(2) d(1) assms(3) [symmetric]]
  show ?thesis
    using n [OF not_digit_dot not_digit_dot] n [OF not_digit_dot not_digit_underscore]
      n [OF not_digit_underscore not_digit_dot] n [OF not_digit_underscore not_digit_underscore]
    by (simp add: user_paths_def getUserEntriesFile_def getUserNutritionFile_def
        getUserNutritionSettingsFile_def dietFile_def dietSettingsFile_def)
qed

lemma read_own_files:
  assumes "is_read g" "\<forall>p \<in> user_paths b. files w' p = files w p" "rfail w' = rfail w"
  shows "fst (handler e g b req w') = fst (handler e g b req w)"
proof -
  have "read_json w' p d = read_json w p d" if "p \<in> user_paths b" for p d
    using assms(2,3) that by (simp add: read_json_def split: option.splits stored.splits)
  then show ?thesis
    using assms(1) by (cases g) (simp_all add: route_defs storage_defs user_paths_def)
qed

lemma read_after_other_user:
  assumes ids: "digits_only a" "digits_only b" "a \<noteq> b"
    and A: "session_userId reqA = Some a"
    and B: "session_userId reqB = Some b" "is_read g"
  shows "fst (serve e g reqB (snd (serve e' r reqA w))) = fst (serve e g reqB w)"
proof (cases "a = []")
  case True
  then show ?thesis using A by (simp add: serve_def isAuthenticated_def)
next
  case False
  have disj: "user_paths a \<inter> user_paths b = {}"
    using ids by (rule user_paths_disjoint)
  have after: "snd (serve e' r reqA w) = snd (handler e' r a reqA w)"
    using A False by (simp add: serve_def isAuthenticated_def)
  have same: "(\<forall>p \<in> user_paths b. files (snd (handler e' r a reqA w)) p = files w p)
      \<and> rfail (snd (handler e' r a reqA w)) = rfail w"
  proof -
    have "files (snd (write_json w p v)) q = files w q"
      if "p \<in> user_paths a" "q \<in> user_paths b" for p q v
      using that disj by (intro write_json_files) blast
    then show ?thesis
      using handler_changes [of e' r a reqA w] by (auto simp: write_json_rfail)
  qed
  have "fst (handler e g b reqB (snd (handler e' r a reqA w))) = fst (handler e g b reqB w)"
    using same B by (intro read_own_files) simp_all
  then show ?thesis
    using B after by (simp add: serve_def isAuthenticated_def)
qed


lemma digit_char_is_digit: "n < 10 \<Longrightarrow> is_digit (digit_char n)"
proof -
  assume "n < 10"
  then have "n \<in> {0, 1, 2, 3, 4, 5, 6, 7, 8, 9}"
    by auto
  then show ?thesis
    by (auto simp: digit_char_def is_digit_def)
qed

lemma decimal_digits: "list_all is_digit (decimal n)"
proof (induction n rule: decimal.induct)
  case (1 n)
  then show ?case
    by (subst decimal.simps) (simp add: digit_char_is_digit)
qed

lemma decimal_digits_only: "digits_only (decimal n)"
proof -
  have "decimal n \<noteq> []"
    by (subst decimal.simps) simp
  then show ?thesis
    by (simp add: digits_only_def decimal_digits)
qed

lemma register_ids_digits_only:
  assumes "list_all (\<lambda>x. digits_only (user_id x)) (readUsers w)"
  shows "list_all (\<lambda>x. digits_only (user_id x)) (readUsers (snd (register e req w)))"
  using assms
  by (auto simp: register_def Let_def readUsers_def writeUsers_def writeUserEntries_def
      write_json_def decimal_digits_only split: option.splits stored.splits if_splits)

lemma login_session_id:
  assumes "login e req w = (r, Some (uid, un))"
  shows "\<exists>x \<in> set (readUsers w). user_id x = uid"
  using assms
  by (auto simp: login_def Let_def find_Some_iff split: option.splits if_splits)

text \<open>
  C3. Let \<open>a\<close> and \<open>b\<close> be two different user ids, made of digits as
  \<^verbatim>\<open>register\<close> makes them. Whatever requests are served with the session of \<open>a\<close>, on
  any protected routes and with any bodies, each of the five reads (weight entries,
  nutrition entries, nutrition settings, diet entries, diet settings) with the session
  of \<open>b\<close> returns afterwards what it would have returned before: nothing written
  under the id \<open>a\<close> reaches it.
\<close>

theorem other_user_reads_unaffected:
  assumes ids: "digits_only a" "digits_only b" "a \<noteq> b"
    and A: "\<forall>(e', r, req) \<in> set reqs. session_userId req = Some a"
    and B: "session_userId reqB = Some b" "is_read g"
  shows "fst (serve e g reqB (run reqs w)) = fst (serve e g reqB w)"
  using A
proof (induction reqs arbitrary: w)
  case Nil
  show ?case by simp
next
  case (Cons x reqs)
  obtain e' r req where x: "x = (e', r, req)"
    by (cases x) auto
  have s: "session_userId req = Some a"
    using Cons.prems x by simp
  have "fst (serve e g reqB (run (x # reqs) w))
      = fst (serve e g reqB (snd (serve e' r req w)))"
    using Cons.IH [of "snd (serve e' r req w)"] Cons.prems x by simp
  also have "\<dots> = fst (serve e g reqB w)"
    using ids s B by (rule read_after_other_user)
  finally show ?case .
qed

theorem other_user_reads_unaffected_witness:
  "(digits_only alice \<and> digits_only bob \<and> alice \<noteq> bob
    \<and> list_all (\<lambda>(e', r, req). session_userId req = Some alice)
          [(ex_env, PostEntries, as_user alice february_body),
           (ex_env, PostNutritionSettings, as_user alice first_save)]
    \<and> session_userId (as_user bob Null) = Some bob \<and> is_read GetEntries)
   \<and> fst (serve ex_env GetEntries (as_user bob Null)
          (run [(ex_env, PostEntries, as_user alice february_body),
                (ex_env, PostNutritionSettings, as_user alice first_save)] ex_world))
     = fst (serve ex_env GetEntries (as_user bob Null) ex_world)"
proof -
  have i: "digits_only alice" "digits_only bob" "alice \<noteq> bob"
    by (simp_all add: digits_only_def is_digit_def alice_def bob_def)
  have l: "list_all (\<lambda>(e', r, req). session_userId req = Some alice)
          [(ex_env, PostEntries, as_user alice february_body),
           (ex_env, PostNutritionSettings, as_user alice first_save)]"
    by (simp add: as_user_def)
  then have a: "\<forall>(e', r, req) \<in> set [(ex_env, PostEntries, as_user alice february_body),
                               (ex_env, PostNutritionSettings, as_user alice first_save)].
          session_userId req = Some alice"
    by simp
  have b: "session_userId (as_user bob Null) = Some bob" "is_read GetEntries"
    by (simp_all add: as_user_def)
  show ?thesis
    using i l b other_user_reads_unaffected [OF i a b] by blast
qed


end
